theory Spec2Isabelle
  imports Main
begin

section \<open>Strings as the helper layer uses them\<close>

text \<open>
  The source is \<^verbatim>\<open>src/lib/date-utils.ts\<close>. A JavaScript string is modelled as a
  \<^typ>\<open>string\<close>, one \<^typ>\<open>char\<close> for each code unit, so the model covers the
  strings whose code units a \<^typ>\<open>char\<close> can hold; every character the source tests
  for (letters, digits, underscore, dot, slash, space) is among them. The functions below
  are the string primitives the source calls: \<^verbatim>\<open>split\<close>, \<^verbatim>\<open>join\<close>,
  \<^verbatim>\<open>pop\<close>, the template literal of a number, and the three regular expressions.
\<close>

text \<open>
  \<^verbatim>\<open>s.split(d)\<close> for a one-character separator: the result is never empty,
  \<^verbatim>\<open>"".split("_")\<close> is \<^verbatim>\<open>[""]\<close> and \<^verbatim>\<open>"a_".split("_")\<close> is \<^verbatim>\<open>["a", ""]\<close>.
  A character other than the separator goes in front of the first segment of the rest
  (the rest always has one, see \<open>split_on_not_Nil\<close>).
\<close>

fun split_on :: "char \<Rightarrow> string \<Rightarrow> string list" where
  "split_on d [] = [[]]"
| "split_on d (c # cs) =
     (if c = d then [] # split_on d cs
      else (case split_on d cs of
              p # ps \<Rightarrow> (c # p) # ps
            | [] \<Rightarrow> [[c]]))"

text \<open>\<^verbatim>\<open>parts.join(d)\<close>.\<close>

fun join :: "char \<Rightarrow> string list \<Rightarrow> string" where
  "join d [] = []"
| "join d [x] = x"
| "join d (x # y # ys) = x @ d # join d (y # ys)"

text \<open>The character classes \<^verbatim>\<open>[a-zA-Z0-9]\<close> and \<^verbatim>\<open>\w\<close> (which adds the underscore).\<close>

definition is_alnum :: "char \<Rightarrow> bool" where
  "is_alnum c \<longleftrightarrow>
     c \<in> set (''abcdefghijklmnopqrstuvwxyz'' @ ''ABCDEFGHIJKLMNOPQRSTUVWXYZ'' @ ''0123456789'')"

definition is_word :: "char \<Rightarrow> bool" where
  "is_word c \<longleftrightarrow> is_alnum c \<or> c = CHR ''_''"

text \<open>
  The decimal digits of a non-negative integer, as the template literal
  \<^verbatim>\<open>`${Date.now()}`\<close> prints a millisecond count.
\<close>

definition digit_char :: "nat \<Rightarrow> char" where
  "digit_char n = ''0123456789'' ! (n mod 10)"

function show_nat :: "nat \<Rightarrow> string" where
  "show_nat n = (if n < 10 then [digit_char n] else show_nat (n div 10) @ [digit_char n])"
  by pat_completeness auto
termination
  by (relation "measure id") auto

declare show_nat.simps [simp del]

text \<open>\<^verbatim>\<open>name.replace(/[^a-zA-Z0-9]/g, '_')\<close> of \<^verbatim>\<open>uploadDocument\<close>.\<close>

definition sanitize :: "string \<Rightarrow> string" where
  "sanitize name = map (\<lambda>c. if is_alnum c then c else CHR ''_'') name"

text \<open>
  \<^verbatim>\<open>s.replace(/\.\w+$/, '')\<close>: the leftmost dot that is followed by one or more word
  characters up to the end of the string is removed together with them; a string with no
  such dot is returned as it is.
\<close>

fun strip_ext :: "string \<Rightarrow> string" where
  "strip_ext [] = []"
| "strip_ext (c # cs) =
     (if c = CHR ''.'' \<and> cs \<noteq> [] \<and> list_all is_word cs then [] else c # strip_ext cs)"

text \<open>\<^verbatim>\<open>s.replace(/_/g, ' ')\<close>.\<close>

definition underscores_to_spaces :: "string \<Rightarrow> string" where
  "underscores_to_spaces s = map (\<lambda>c. if c = CHR ''_'' then CHR '' '' else c) s"

section \<open>The filename codec\<close>

record parsed =
  pf_category :: string
  pf_displayName :: string

text \<open>
  \<^verbatim>\<open>
  function parseFilename(filename: string): { category: string; displayName: string } {
    const parts = filename.split('_');
    let category = 'other';
    let displayName = filename;
    if (parts.length >= 3) {
      category = parts[1];
      const nameWithExt = parts.slice(2).join('_');
      displayName = nameWithExt.replace(/\.\w+$/, '').replace(/_/g, ' ');
    }
    return { category, displayName };
  }
  \<close>
\<close>

definition parseFilename :: "string \<Rightarrow> parsed" where
  "parseFilename filename =
     (let parts = split_on CHR ''_'' filename in
      if length parts \<ge> 3 then
        (let nameWithExt = join CHR ''_'' (drop 2 parts) in
         \<lparr> pf_category = parts ! 1,
           pf_displayName = underscores_to_spaces (strip_ext nameWithExt) \<rparr>)
      else \<lparr> pf_category = ''other'', pf_displayName = filename \<rparr>)"

section \<open>The remote client\<close>

text \<open>
  Every operation of the source is a short sequence of requests to the hosted object store
  (\<^verbatim>\<open>supabase.storage.from("documents")\<close>) and to the hosted tables
  (\<^verbatim>\<open>supabase.from(table)\<close>). The client library is not part of the repository, so
  the service is a parameter of the model: a function from a request and the state of the
  service to a response and the next state. Nothing is assumed about which requests
  succeed. Each awaited request resolves to \<^verbatim>\<open>{ data, error }\<close>, where a failed
  request carries the error and no data, which is the type \<open>response\<close>.

  The client state keeps, besides the state of the service, the list of the requests
  issued so far and the console output, so that a theorem can say which requests an
  operation makes and in which order.
\<close>

datatype err = RemoteError string

record file_object =
  obj_name :: string
  obj_created_at :: string
  obj_metadata_size :: "nat option"

datatype response = Failed err | Done "file_object list option"

fun error_of :: "response \<Rightarrow> err option" where
  "error_of (Failed e) = Some e"
| "error_of (Done d) = None"

fun data_of :: "response \<Rightarrow> file_object list option" where
  "data_of (Failed e) = None"
| "data_of (Done d) = d"

record upload_file =
  file_name :: string
  file_type :: string

record deleted_document =
  user_id :: string
  document_path :: string
  document_name :: string

text \<open>
  The requests. \<open>StorageList\<close> always carries the options
  \<^verbatim>\<open>{ limit: 100, sortBy: { column: "created_at", order: "desc" } }\<close> and
  \<open>StorageUpload\<close> the options \<^verbatim>\<open>{ cacheControl: "3600", upsert: false }\<close>;
  \<open>TableDelete t [(c1, v1), (c2, v2)]\<close> is
  \<^verbatim>\<open>supabase.from(t).delete().eq(c1, v1).eq(c2, v2)\<close>.
\<close>

datatype call =
    StorageUpload string upload_file
  | StorageCopy string string
  | StorageRemove "string list"
  | StorageList string
  | TableUpsert string deleted_document
  | TableDelete string "(string \<times> string) list"

type_synonym 's server = "call \<Rightarrow> 's \<Rightarrow> response \<times> 's"

datatype console_msg = ConsoleWarn string err | ConsoleError string err

record 's client =
  remote :: 's
  trace :: "call list"
  console :: "console_msg list"

definition invoke :: "'s server \<Rightarrow> call \<Rightarrow> 's client \<Rightarrow> response \<times> 's client" where
  "invoke srv c st =
     (case srv c (remote st) of
        (r, s') \<Rightarrow> (r, st\<lparr> remote := s', trace := trace st @ [c] \<rparr>))"

definition console_warn :: "string \<Rightarrow> err \<Rightarrow> 's client \<Rightarrow> 's client" where
  "console_warn msg e st = st\<lparr> console := console st @ [ConsoleWarn msg e] \<rparr>"

definition console_error :: "string \<Rightarrow> err \<Rightarrow> 's client \<Rightarrow> 's client" where
  "console_error msg e st = st\<lparr> console := console st @ [ConsoleError msg e] \<rparr>"

text \<open>\<^verbatim>\<open>data || []\<close> and \<^verbatim>\<open>obj.metadata?.size || 0\<close>.\<close>

definition or_empty :: "'a list option \<Rightarrow> 'a list" where
  "or_empty data = (case data of None \<Rightarrow> [] | Some objs \<Rightarrow> objs)"

definition size_or_zero :: "file_object \<Rightarrow> nat" where
  "size_or_zero obj = (case obj_metadata_size obj of None \<Rightarrow> 0 | Some n \<Rightarrow> n)"

section \<open>Upload\<close>

record stored =
  res_publicUrl :: string
  res_path :: string

text \<open>
  \<^verbatim>\<open>
  export async function uploadDocument(userId, file, name, category, isPrivate = false) {
    const fileExt = file.name.split(".").pop();
    const safeName = name.replace(/[^a-zA-Z0-9]/g, '_');
    const prefix = isPrivate ? `${userId}/private` : userId;
    const filePath = `${prefix}/${Date.now()}_${category}_${safeName}.${fileExt}`;
    const { error } = await supabase.storage.from("documents").upload(filePath, file, {...});
    if (error) { throw error; }
    const { data } = supabase.storage.from("documents").getPublicUrl(filePath);
    return { publicUrl: data.publicUrl, path: filePath };
  }
  \<close>
  \<open>getPublicUrl\<close> is a local computation of the client (no request) and is a parameter,
  as is the clock reading \<open>now\<close> that \<^verbatim>\<open>Date.now()\<close> returns.
\<close>

definition uploadDocument ::
  "'s server \<Rightarrow> (string \<Rightarrow> string) \<Rightarrow> nat \<Rightarrow> string \<Rightarrow> upload_file \<Rightarrow> string \<Rightarrow> string \<Rightarrow> bool
     \<Rightarrow> 's client \<Rightarrow> (err + stored) \<times> 's client" where
  "uploadDocument srv getPublicUrl now userId file name category isPrivate st =
     (let fileExt = last (split_on CHR ''.'' (file_name file));
          safeName = sanitize name;
          prefix = (if isPrivate then userId @ ''/private'' else userId);
          filePath = prefix @ ''/'' @ show_nat now @ ''_'' @ category @ ''_'' @ safeName
                       @ ''.'' @ fileExt
      in case invoke srv (StorageUpload filePath file) st of
           (r, st1) \<Rightarrow>
             (case error_of r of
                Some error \<Rightarrow> (Inl error, st1)
              | None \<Rightarrow> (Inr \<lparr> res_publicUrl = getPublicUrl filePath, res_path = filePath \<rparr>, st1)))"

section \<open>Trash, restore, permanent delete\<close>

text \<open>
  \<^verbatim>\<open>cleanupDocumentReferences(userId, documentPath)\<close>: three deletions, each followed by
  a warning when its response carries an error. The requests resolve and raise nothing,
  so the surrounding \<^verbatim>\<open>try\<close> has nothing to catch and the function returns normally.
\<close>

definition cleanupDocumentReferences :: "'s server \<Rightarrow> string \<Rightarrow> string \<Rightarrow> 's client \<Rightarrow> 's client" where
  "cleanupDocumentReferences srv userId documentPath st =
     (case invoke srv (TableDelete ''smart_folder_assignments''
                         [(''user_id'', userId), (''document_path'', documentPath)]) st of
        (r1, st1) \<Rightarrow>
     (let st1' = (case error_of r1 of
                    Some assignmentErr \<Rightarrow>
                      console_warn ''Failed to clean up folder assignments:'' assignmentErr st1
                  | None \<Rightarrow> st1)
      in case invoke srv (TableDelete ''document_shares''
                            [(''user_id'', userId), (''document_path'', documentPath)]) st1' of
        (r2, st2) \<Rightarrow>
     (let st2' = (case error_of r2 of
                    Some shareErr \<Rightarrow>
                      console_warn ''Failed to clean up document shares:'' shareErr st2
                  | None \<Rightarrow> st2)
      in case invoke srv (TableDelete ''deleted_documents''
                            [(''user_id'', userId), (''document_path'', documentPath)]) st2' of
        (r3, st3) \<Rightarrow>
          (case error_of r3 of
             Some deletedErr \<Rightarrow>
               console_warn ''Failed to clean up deleted documents tracking:'' deletedErr st3
           | None \<Rightarrow> st3))))"

text \<open>
  \<^verbatim>\<open>
  export async function moveToTrash(userId: string, path: string) {
    const filename = path.split("/").pop();
    const dest = `${userId}/trash/${filename}`;
    const { error: copyErr } = await supabase.storage.from("documents").copy(path, dest);
    if (copyErr) throw copyErr;
    const { error: delErr } = await supabase.storage.from("documents").remove([path]);
    if (delErr) throw delErr;
    await cleanupDocumentReferences(userId, path);
    const { error: trackErr } = await supabase.from('deleted_documents').upsert({
        user_id: userId, document_path: path, document_name: filename || 'unknown' });
    if (trackErr) { console.warn('Failed to track deleted document:', trackErr); }
  }
  \<close>
\<close>

definition moveToTrash ::
  "'s server \<Rightarrow> string \<Rightarrow> string \<Rightarrow> 's client \<Rightarrow> (err + unit) \<times> 's client" where
  "moveToTrash srv userId path st =
     (let filename = last (split_on CHR ''/'' path);
          dest = userId @ ''/trash/'' @ filename
      in case invoke srv (StorageCopy path dest) st of
        (r1, st1) \<Rightarrow>
     (case error_of r1 of
        Some copyErr \<Rightarrow> (Inl copyErr, st1)
      | None \<Rightarrow>
     (case invoke srv (StorageRemove [path]) st1 of
        (r2, st2) \<Rightarrow>
     (case error_of r2 of
        Some delErr \<Rightarrow> (Inl delErr, st2)
      | None \<Rightarrow>
     (let st3 = cleanupDocumentReferences srv userId path st2
      in case invoke srv (TableUpsert ''deleted_documents''
                            \<lparr> user_id = userId, document_path = path,
                              document_name = (if filename = [] then ''unknown'' else filename) \<rparr>)
                st3 of
        (r4, st4) \<Rightarrow>
          (case error_of r4 of
             Some trackErr \<Rightarrow>
               (Inr (), console_warn ''Failed to track deleted document:'' trackErr st4)
           | None \<Rightarrow> (Inr (), st4)))))))"

text \<open>
  \<^verbatim>\<open>
  export async function restoreFromTrash(userId: string, filename: string) {
    const src = `${userId}/trash/${filename}`;
    const dest = `${userId}/${Date.now()}_${filename}`;
    const { error: copyErr } = await supabase.storage.from("documents").copy(src, dest);
    if (copyErr) throw copyErr;
    await supabase.storage.from("documents").remove([src]);
    const { error: trackErr } = await supabase.from('deleted_documents').delete()
        .eq('user_id', userId).eq('document_path', src);
    if (trackErr) { console.warn('Failed to remove from deleted documents tracking:', trackErr); }
    const { data } = supabase.storage.from("documents").getPublicUrl(dest);
    return { path: dest, publicUrl: data.publicUrl };
  }
  \<close>
\<close>

definition restoreFromTrash ::
  "'s server \<Rightarrow> (string \<Rightarrow> string) \<Rightarrow> nat \<Rightarrow> string \<Rightarrow> string \<Rightarrow> 's client
     \<Rightarrow> (err + stored) \<times> 's client" where
  "restoreFromTrash srv getPublicUrl now userId filename st =
     (let src = userId @ ''/trash/'' @ filename;
          dest = userId @ ''/'' @ show_nat now @ ''_'' @ filename
      in case invoke srv (StorageCopy src dest) st of
        (r1, st1) \<Rightarrow>
     (case error_of r1 of
        Some copyErr \<Rightarrow> (Inl copyErr, st1)
      | None \<Rightarrow>
     (case invoke srv (StorageRemove [src]) st1 of
        (r2, st2) \<Rightarrow>
     (case invoke srv (TableDelete ''deleted_documents''
                         [(''user_id'', userId), (''document_path'', src)]) st2 of
        (r3, st3) \<Rightarrow>
     (let st4 = (case error_of r3 of
                   Some trackErr \<Rightarrow>
                     console_warn ''Failed to remove from deleted documents tracking:'' trackErr st3
                 | None \<Rightarrow> st3)
      in (Inr \<lparr> res_publicUrl = getPublicUrl dest, res_path = dest \<rparr>, st4))))))"

text \<open>
  \<^verbatim>\<open>
  export async function deletePermanent(path: string) {
    await supabase.storage.from("documents").remove([path]);
    const userId = path.split('/')[0];
    await cleanupDocumentReferences(userId, path);
  }
  \<close>
\<close>

definition deletePermanent :: "'s server \<Rightarrow> string \<Rightarrow> 's client \<Rightarrow> (err + unit) \<times> 's client" where
  "deletePermanent srv path st =
     (case invoke srv (StorageRemove [path]) st of
        (r1, st1) \<Rightarrow>
          (let userId = hd (split_on CHR ''/'' path)
           in (Inr (), cleanupDocumentReferences srv userId path st1)))"

section \<open>Trash listing and purge\<close>

record trash_entry =
  trash_name :: string
  trash_path :: string
  trash_publicUrl :: string
  trash_size :: nat
  trash_deletedAt :: string

text \<open>
  \<^verbatim>\<open>
  export async function listUserTrash(userId: string) {
    const { data, error } = await supabase.storage.from("documents").list(`${userId}/trash`, {...});
    if (error) throw error;
    return (
      data?.map((obj) => {
        const { data: pub } = supabase.storage.from("documents").getPublicUrl(`${userId}/trash/${obj.name}`);
        return { name: obj.name, path: `${userId}/trash/${obj.name}`, publicUrl: pub.publicUrl,
                 size: obj.metadata?.size || 0, deletedAt: obj.created_at };
      }) || []
    );
  }
  \<close>
\<close>

definition listUserTrash ::
  "'s server \<Rightarrow> (string \<Rightarrow> string) \<Rightarrow> string \<Rightarrow> 's client
     \<Rightarrow> (err + trash_entry list) \<times> 's client" where
  "listUserTrash srv getPublicUrl userId st =
     (case invoke srv (StorageList (userId @ ''/trash'')) st of
        (r, st1) \<Rightarrow>
          (case error_of r of
             Some error \<Rightarrow> (Inl error, st1)
           | None \<Rightarrow>
               (Inr (case data_of r of
                       None \<Rightarrow> []
                     | Some objs \<Rightarrow>
                         map (\<lambda>obj. \<lparr> trash_name = obj_name obj,
                                      trash_path = userId @ ''/trash/'' @ obj_name obj,
                                      trash_publicUrl =
                                        getPublicUrl (userId @ ''/trash/'' @ obj_name obj),
                                      trash_size = size_or_zero obj,
                                      trash_deletedAt = obj_created_at obj \<rparr>) objs),
                st1)))"

text \<open>
  \<^verbatim>\<open>
  export async function purgeOldTrash(userId: string, days = 30) {
    const threshold = Date.now() - days * 24 * 60 * 60 * 1000;
    const trash = await listUserTrash(userId);
    const toDelete = trash.filter((t) => t.size > 0 && new Date(t.deletedAt).getTime() < threshold)
                          .map((t) => t.path);
    if (toDelete.length) {
      await supabase.storage.from("documents").remove(toDelete);
    }
  }
  \<close>
  \<open>getTime s\<close> is \<^verbatim>\<open>new Date(s).getTime()\<close> in milliseconds, \<open>None\<close> for the
  \<^verbatim>\<open>NaN\<close> of a string that is not a date (a comparison with \<^verbatim>\<open>NaN\<close> is false).
  \<open>days\<close> is \<open>None\<close> when the caller leaves the argument out. Times and day counts
  are integers.
\<close>

definition purgeOldTrash ::
  "'s server \<Rightarrow> (string \<Rightarrow> string) \<Rightarrow> (string \<Rightarrow> int option) \<Rightarrow> nat \<Rightarrow> string \<Rightarrow> int option
     \<Rightarrow> 's client \<Rightarrow> (err + unit) \<times> 's client" where
  "purgeOldTrash srv getPublicUrl getTime now userId days st =
     (let threshold = int now - (case days of None \<Rightarrow> 30 | Some d \<Rightarrow> d) * 24 * 60 * 60 * 1000
      in case listUserTrash srv getPublicUrl userId st of
        (Inl e, st1) \<Rightarrow> (Inl e, st1)
      | (Inr trash, st1) \<Rightarrow>
          (let toDelete =
                 map trash_path
                   (filter (\<lambda>t. trash_size t > 0 \<and>
                                 (case getTime (trash_deletedAt t) of
                                    None \<Rightarrow> False
                                  | Some ms \<Rightarrow> ms < threshold)) trash)
           in if toDelete \<noteq> []
              then (Inr (), snd (invoke srv (StorageRemove toDelete) st1))
              else (Inr (), st1)))"

section \<open>Document listing\<close>

record document =
  doc_name :: string
  doc_path :: string
  doc_publicUrl :: string
  doc_size :: nat
  doc_category :: string
  doc_created_at :: string

text \<open>
  The filter of both listings,
  \<^verbatim>\<open>obj => obj.name && obj.name.includes('.') && (obj.metadata?.size || 0) > 0\<close>.
\<close>

definition is_listed_file :: "file_object \<Rightarrow> bool" where
  "is_listed_file obj \<longleftrightarrow>
     obj_name obj \<noteq> [] \<and> CHR ''.'' \<in> set (obj_name obj) \<and> size_or_zero obj > 0"

text \<open>The two \<^verbatim>\<open>map\<close> callbacks of \<^verbatim>\<open>listUserDocuments\<close>.\<close>

definition regular_doc :: "(string \<Rightarrow> string) \<Rightarrow> string \<Rightarrow> file_object \<Rightarrow> document" where
  "regular_doc getPublicUrl userId obj =
     (let fullPath = userId @ ''/'' @ obj_name obj;
          p = parseFilename (obj_name obj)
      in \<lparr> doc_name = pf_displayName p, doc_path = fullPath,
           doc_publicUrl = getPublicUrl fullPath, doc_size = size_or_zero obj,
           doc_category = pf_category p, doc_created_at = obj_created_at obj \<rparr>)"

definition private_doc :: "(string \<Rightarrow> string) \<Rightarrow> string \<Rightarrow> file_object \<Rightarrow> document" where
  "private_doc getPublicUrl userId obj =
     (let fullPath = userId @ ''/private/'' @ obj_name obj;
          p = parseFilename (obj_name obj)
      in \<lparr> doc_name = pf_displayName p, doc_path = fullPath,
           doc_publicUrl = getPublicUrl fullPath, doc_size = size_or_zero obj,
           doc_category = ''private'', doc_created_at = obj_created_at obj \<rparr>)"

text \<open>
  \<^verbatim>\<open>
  export async function listUserDocuments(userId: string) {
    try {
      const { data: regularData, error: regularError } =
        await supabase.storage.from("documents").list(userId, {...});
      if (regularError) {
        console.error('Error listing regular documents:', regularError);
        throw regularError;
      }
      const { data: privateData, error: privateError } =
        await supabase.storage.from("documents").list(`${userId}/private`, {...});
      if (privateError) {
        console.error('Error listing private documents:', privateError);
        // Don't throw, as we might still have regular documents
      }
      const regularDocs = (regularData || []).filter(...).map(...);
      const privateDocs = (privateData || []).filter(...).map(...);
      return [...regularDocs, ...privateDocs];
    } catch (error) {
      console.error('Error in listUserDocuments:', error);
      throw error;
    }
  }
  \<close>
  The only exception raised inside the \<^verbatim>\<open>try\<close> is \<^verbatim>\<open>regularError\<close>; the
  \<^verbatim>\<open>catch\<close> logs it a second time and raises it again.
\<close>

definition listUserDocuments ::
  "'s server \<Rightarrow> (string \<Rightarrow> string) \<Rightarrow> string \<Rightarrow> 's client
     \<Rightarrow> (err + document list) \<times> 's client" where
  "listUserDocuments srv getPublicUrl userId st =
     (case invoke srv (StorageList userId) st of
        (r1, st1) \<Rightarrow>
     (let regularData = data_of r1 in
      case error_of r1 of
        Some regularError \<Rightarrow>
          (Inl regularError,
           console_error ''Error in listUserDocuments:'' regularError
             (console_error ''Error listing regular documents:'' regularError st1))
      | None \<Rightarrow>
     (case invoke srv (StorageList (userId @ ''/private'')) st1 of
        (r2, st2) \<Rightarrow>
     (let privateData = data_of r2;
          st3 = (case error_of r2 of
                   Some privateError \<Rightarrow>
                     console_error ''Error listing private documents:'' privateError st2
                 | None \<Rightarrow> st2);
          regularDocs =
            map (regular_doc getPublicUrl userId)
              (filter is_listed_file (or_empty regularData));
          privateDocs =
            map (private_doc getPublicUrl userId)
              (filter is_listed_file (or_empty privateData))
      in (Inr (regularDocs @ privateDocs), st3)))))"

section \<open>Services for running the operations\<close>

text \<open>
  Two services on which the operations can be run on concrete inputs: one that answers
  the requests from a prepared list of responses, in order (and with an empty success
  once the list is used up), and the client state before any request.
\<close>

definition scripted :: "response list server" where
  "scripted c rs = (case rs of [] \<Rightarrow> (Done None, []) | r # rs' \<Rightarrow> (r, rs'))"

definition fresh :: "'s \<Rightarrow> 's client" where
  "fresh s = \<lparr> remote = s, trace = [], console = [] \<rparr>"


text \<open>A console line printed by \<^verbatim>\<open>console.warn\<close>.\<close>

definition is_warning :: "console_msg \<Rightarrow> bool" where
  "is_warning m = (case m of ConsoleWarn msg e \<Rightarrow> True | ConsoleError msg e \<Rightarrow> False)"

section \<open>Facts about the string primitives\<close>

lemma split_on_not_Nil [simp]: "split_on d s \<noteq> []"
  by (induction s) (auto split: list.splits)


lemma split_on_append: "d \<notin> set a \<Longrightarrow> split_on d (a @ d # rest) = a # split_on d rest"
  by (induction a) auto

lemma join_split_on: "join d (split_on d s) = s"
proof (induction s)
  case Nil
  then show ?case by simp
next
  case (Cons c cs)
  obtain p ps where ps: "split_on d cs = p # ps"
    by (cases "split_on d cs") auto
  with Cons show ?case
    by (cases ps) auto
qed




lemma is_alnum_not_special:
  "is_alnum c \<Longrightarrow> c \<noteq> CHR ''_'' \<and> c \<noteq> CHR '' '' \<and> c \<noteq> CHR ''.'' \<and> c \<noteq> CHR ''/''"
  by (auto simp: is_alnum_def)

lemma strip_ext_append:
  "ext \<noteq> [] \<Longrightarrow> list_all is_word ext \<Longrightarrow> strip_ext (s @ CHR ''.'' # ext) = s"
proof (induction s)
  case Nil
  then show ?case by simp
next
  case (Cons c s)
  have "\<not> is_word CHR ''.''"
    by (simp add: is_word_def is_alnum_def)
  then have "\<not> list_all is_word (s @ CHR ''.'' # ext)"
    by simp
  with Cons show ?case by simp
qed

lemma digit_char_in: "digit_char n \<in> set ''0123456789''"
  unfolding digit_char_def by (rule nth_mem) simp

lemma show_nat_digits: "set (show_nat n) \<subseteq> set ''0123456789''"
proof (induction n rule: show_nat.induct)
  case (1 n)
  show ?case
  proof (cases "n < 10")
    case True
    then have "show_nat n = [digit_char n]"
      by (simp add: show_nat.simps)
    then show ?thesis
      using digit_char_in [of n] by simp
  next
    case False
    then have "show_nat n = show_nat (n div 10) @ [digit_char n]"
      by (subst show_nat.simps) simp
    with 1 False show ?thesis
      using digit_char_in [of n] by simp
  qed
qed

lemma show_nat_no_underscore: "CHR ''_'' \<notin> set (show_nat n)"
  using show_nat_digits [of n] by auto


lemma parseFilename_encoded:
  assumes "CHR ''_'' \<notin> set t" and "CHR ''_'' \<notin> set c"
  shows "parseFilename (t @ ''_'' @ c @ ''_'' @ rest) =
           \<lparr> pf_category = c, pf_displayName = underscores_to_spaces (strip_ext rest) \<rparr>"
proof -
  have "split_on CHR ''_'' (t @ ''_'' @ c @ ''_'' @ rest) = t # c # split_on CHR ''_'' rest"
    using assms by (simp add: split_on_append)
  moreover have "length (split_on CHR ''_'' rest) \<ge> 1"
    by (cases "split_on CHR ''_'' rest") auto
  ultimately show ?thesis
    by (simp add: parseFilename_def join_split_on)
qed

lemma underscores_to_spaces_sanitize:
  "list_all (\<lambda>c. is_alnum c \<or> c = CHR '' '') n \<Longrightarrow> underscores_to_spaces (sanitize n) = n"
proof (induction n)
  case Nil
  then show ?case by (simp add: underscores_to_spaces_def sanitize_def)
next
  case (Cons c n)
  have sp: "\<not> is_alnum CHR '' ''"
    by (simp add: is_alnum_def)
  from Cons show ?case
    using is_alnum_not_special [of c] sp
    by (auto simp: underscores_to_spaces_def sanitize_def)
qed





section \<open>Facts about the requests an operation issues\<close>

lemma invoke_trace: "trace (snd (invoke srv c st)) = trace st @ [c]"
  by (simp add: invoke_def split: prod.splits)

lemma invoke_console: "console (snd (invoke srv c st)) = console st"
  by (simp add: invoke_def split: prod.splits)

lemma console_warn_trace: "trace (console_warn msg e st) = trace st"
  by (simp add: console_warn_def)

lemma cleanup_trace:
  "trace (cleanupDocumentReferences srv userId documentPath st) =
     trace st @
       [TableDelete ''smart_folder_assignments''
          [(''user_id'', userId), (''document_path'', documentPath)],
        TableDelete ''document_shares''
          [(''user_id'', userId), (''document_path'', documentPath)],
        TableDelete ''deleted_documents''
          [(''user_id'', userId), (''document_path'', documentPath)]]"
  by (simp add: cleanupDocumentReferences_def Let_def case_prod_beta invoke_trace
      console_warn_trace split: option.splits)




lemma cleanup_console:
  "\<exists>ws. console (cleanupDocumentReferences srv userId documentPath st) = console st @ ws
        \<and> list_all is_warning ws"
  by (simp add: cleanupDocumentReferences_def Let_def case_prod_beta invoke_console
      console_warn_def is_warning_def split: option.splits)






section \<open>Facts about the listings\<close>

lemma listUserTrash_done:
  assumes "srv (StorageList (userId @ ''/trash'')) (remote st) = (Done data, s')"
  shows "listUserTrash srv getPublicUrl userId st =
     (Inr (map (\<lambda>obj. \<lparr> trash_name = obj_name obj,
                          trash_path = userId @ ''/trash/'' @ obj_name obj,
                          trash_publicUrl = getPublicUrl (userId @ ''/trash/'' @ obj_name obj),
                          trash_size = size_or_zero obj,
                          trash_deletedAt = obj_created_at obj \<rparr>) (or_empty data)),
      st\<lparr> remote := s', trace := trace st @ [StorageList (userId @ ''/trash'')] \<rparr>)"
  using assms
  by (simp add: listUserTrash_def invoke_def or_empty_def split: option.splits)

lemma purge_selection:
  "map trash_path
     (filter (\<lambda>t. trash_size t > 0 \<and>
                   (case getTime (trash_deletedAt t) of None \<Rightarrow> False | Some ms \<Rightarrow> ms < threshold))
        (map (\<lambda>obj. \<lparr> trash_name = obj_name obj,
                       trash_path = userId @ ''/trash/'' @ obj_name obj,
                       trash_publicUrl = getPublicUrl (userId @ ''/trash/'' @ obj_name obj),
                       trash_size = size_or_zero obj,
                       trash_deletedAt = obj_created_at obj \<rparr>) objs))
   = map (\<lambda>obj. userId @ ''/trash/'' @ obj_name obj)
       (filter (\<lambda>obj. size_or_zero obj \<noteq> 0 \<and>
                       (\<exists>ms. getTime (obj_created_at obj) = Some ms \<and> ms < threshold)) objs)"
  by (induction objs) (auto split: option.splits)

lemma listUserDocuments_regular_done:
  assumes "srv (StorageList userId) (remote st) = (Done regularData, s')"
    and "srv (StorageList (userId @ ''/private'')) s' = (r', s'')"
  shows "fst (listUserDocuments srv getPublicUrl userId st) =
     Inr (map (regular_doc getPublicUrl userId) (filter is_listed_file (or_empty regularData))
          @ map (private_doc getPublicUrl userId) (filter is_listed_file (or_empty (data_of r'))))"
  using assms by (simp add: listUserDocuments_def invoke_def Let_def)

lemma listUserDocuments_regular_failed:
  assumes "srv (StorageList userId) (remote st) = (Failed e, s')"
  shows "listUserDocuments srv getPublicUrl userId st =
     (Inl e, console_error ''Error in listUserDocuments:'' e
               (console_error ''Error listing regular documents:'' e
                  (st\<lparr> remote := s', trace := trace st @ [StorageList userId] \<rparr>)))"
  using assms by (simp add: listUserDocuments_def invoke_def Let_def)

lemma is_listed_fileD:
  "is_listed_file obj \<Longrightarrow> CHR ''.'' \<in> set (obj_name obj) \<and> size_or_zero obj > 0"
  by (simp add: is_listed_file_def)

lemma regular_doc_fields:
  "doc_size (regular_doc getPublicUrl userId obj) = size_or_zero obj"
  "doc_path (regular_doc getPublicUrl userId obj) = userId @ ''/'' @ obj_name obj"
  "doc_name (regular_doc getPublicUrl userId obj) = pf_displayName (parseFilename (obj_name obj))"
  "doc_category (regular_doc getPublicUrl userId obj) = pf_category (parseFilename (obj_name obj))"
  by (simp_all add: regular_doc_def Let_def)

lemma private_doc_fields:
  "doc_size (private_doc getPublicUrl userId obj) = size_or_zero obj"
  "doc_path (private_doc getPublicUrl userId obj) = userId @ ''/private/'' @ obj_name obj"
  "doc_name (private_doc getPublicUrl userId obj) = pf_displayName (parseFilename (obj_name obj))"
  "doc_category (private_doc getPublicUrl userId obj) = ''private''"
  by (simp_all add: private_doc_def Let_def)

section \<open>Decoding a name that is not an encoded key\<close>

text \<open>
  Claim C5. A filename that splits on the underscore into fewer than three segments is
  decoded to the category \<^verbatim>\<open>other\<close> and to itself as display name: the extension
  stays and no underscore becomes a space.
\<close>

theorem parseFilename_few_segments:
  "length (split_on CHR ''_'' filename) < 3 \<Longrightarrow>
     parseFilename filename = \<lparr> pf_category = ''other'', pf_displayName = filename \<rparr>"
  by (simp add: parseFilename_def)

theorem parseFilename_few_segments_witness:
  "length (split_on CHR ''_'' ''randomfile.pdf'') < 3 \<and>
   parseFilename ''randomfile.pdf'' =
     \<lparr> pf_category = ''other'', pf_displayName = ''randomfile.pdf'' \<rparr>"
proof -
  have h: "length (split_on CHR ''_'' ''randomfile.pdf'') < 3"
    by simp
  show ?thesis
    using h parseFilename_few_segments [OF h] by simp
qed

section \<open>A failed copy ends the operation\<close>

text \<open>
  Claim C6. When the copy request of \<open>moveToTrash\<close>, or of \<open>restoreFromTrash\<close>, is
  answered with an error, the operation raises that error and the copy is the only
  request it has issued: the list of requests grows by the copy alone (no remove, no
  reference cleanup, no write or delete of a tracking row), the service is in the state
  the failed copy left it in, and nothing is printed.
\<close>

theorem copy_failure_aborts:
  "(srv (StorageCopy path (userId @ ''/trash/'' @ last (split_on CHR ''/'' path))) (remote st)
      = (Failed e, s') \<longrightarrow>
    moveToTrash srv userId path st =
      (Inl e, st\<lparr> remote := s',
                  trace := trace st @
                    [StorageCopy path (userId @ ''/trash/'' @ last (split_on CHR ''/'' path))] \<rparr>))
   \<and>
   (srv (StorageCopy (userId @ ''/trash/'' @ filename)
           (userId @ ''/'' @ show_nat now @ ''_'' @ filename)) (remote st)
      = (Failed e, s') \<longrightarrow>
    restoreFromTrash srv getPublicUrl now userId filename st =
      (Inl e, st\<lparr> remote := s',
                  trace := trace st @
                    [StorageCopy (userId @ ''/trash/'' @ filename)
                       (userId @ ''/'' @ show_nat now @ ''_'' @ filename)] \<rparr>))"
proof (intro conjI impI)
  assume "srv (StorageCopy path (userId @ ''/trash/'' @ last (split_on CHR ''/'' path)))
            (remote st) = (Failed e, s')"
  then show "moveToTrash srv userId path st =
      (Inl e, st\<lparr> remote := s',
                  trace := trace st @
                    [StorageCopy path (userId @ ''/trash/'' @ last (split_on CHR ''/'' path))] \<rparr>)"
    by (simp add: moveToTrash_def invoke_def)
next
  assume "srv (StorageCopy (userId @ ''/trash/'' @ filename)
           (userId @ ''/'' @ show_nat now @ ''_'' @ filename)) (remote st) = (Failed e, s')"
  then show "restoreFromTrash srv getPublicUrl now userId filename st =
      (Inl e, st\<lparr> remote := s',
                  trace := trace st @
                    [StorageCopy (userId @ ''/trash/'' @ filename)
                       (userId @ ''/'' @ show_nat now @ ''_'' @ filename)] \<rparr>)"
    by (simp add: restoreFromTrash_def invoke_def)
qed

theorem copy_failure_aborts_witness:
  "moveToTrash scripted ''u1'' ''u1/5_id_card.pdf'' (fresh [Failed (RemoteError ''copy refused'')])
     = (Inl (RemoteError ''copy refused''),
        \<lparr> remote = [], trace = [StorageCopy ''u1/5_id_card.pdf'' ''u1/trash/5_id_card.pdf''],
          console = [] \<rparr>)
   \<and>
   restoreFromTrash scripted (\<lambda>p. p) 9 ''u1'' ''5_id_card.pdf''
       (fresh [Failed (RemoteError ''copy refused'')])
     = (Inl (RemoteError ''copy refused''),
        \<lparr> remote = [], trace = [StorageCopy ''u1/trash/5_id_card.pdf'' ''u1/9_5_id_card.pdf''],
          console = [] \<rparr>)"
  using copy_failure_aborts [of scripted "''u1/5_id_card.pdf''" "''u1''"
      "fresh [Failed (RemoteError ''copy refused'')]" "RemoteError ''copy refused''" "[]"
      "''5_id_card.pdf''" 9 "\<lambda>p. p"]
  by (simp add: scripted_def fresh_def show_nat.simps digit_char_def)

section \<open>The codec round trip\<close>

text \<open>
  Claim C2, as the specification states it, with a category that matches
  \<^verbatim>\<open>[A-Za-z0-9_]+\<close>: the category \<^verbatim>\<open>tax_2024\<close> and the name \<^verbatim>\<open>form\<close>
  are uploaded at time 7 under the key \<^verbatim>\<open>7_tax_2024_form.pdf\<close>, which decodes to
  the category \<^verbatim>\<open>tax\<close> and the display name \<^verbatim>\<open>2024 form\<close>. The decoder takes
  the text between the first and the second underscore as the category, so an underscore
  inside the category is read as a delimiter.
\<close>

theorem category_with_underscore_counterexample:
  "list_all is_word ''tax_2024'' \<and> ''tax_2024'' \<noteq> []
   \<and> list_all (\<lambda>c. is_alnum c \<or> c = CHR '' '') ''form''
   \<and> fst (uploadDocument scripted (\<lambda>p. p) 7 ''u1''
             \<lparr> file_name = ''scan.pdf'', file_type = ''application/pdf'' \<rparr>
             ''form'' ''tax_2024'' False (fresh []))
      = Inr \<lparr> res_publicUrl = ''u1/7_tax_2024_form.pdf'', res_path = ''u1/7_tax_2024_form.pdf'' \<rparr>
   \<and> parseFilename ''7_tax_2024_form.pdf''
      = \<lparr> pf_category = ''tax'', pf_displayName = ''2024 form'' \<rparr>
   \<and> pf_category (parseFilename ''7_tax_2024_form.pdf'') \<noteq> ''tax_2024''
   \<and> pf_displayName (parseFilename ''7_tax_2024_form.pdf'') \<noteq> ''form''"
proof -
  have s: "sanitize ''form'' = ''form''"
    by (simp add: sanitize_def is_alnum_def)
  have n: "show_nat 7 = ''7''"
    by (simp add: show_nat.simps digit_char_def)
  have p: "parseFilename ''7_tax_2024_form.pdf''
      = \<lparr> pf_category = ''tax'', pf_displayName = ''2024 form'' \<rparr>"
    by (simp add: parseFilename_def underscores_to_spaces_def is_word_def is_alnum_def)
  have u: "fst (uploadDocument scripted (\<lambda>p. p) 7 ''u1''
             \<lparr> file_name = ''scan.pdf'', file_type = ''application/pdf'' \<rparr>
             ''form'' ''tax_2024'' False (fresh []))
      = Inr \<lparr> res_publicUrl = ''u1/7_tax_2024_form.pdf'', res_path = ''u1/7_tax_2024_form.pdf'' \<rparr>"
    by (simp add: uploadDocument_def invoke_def scripted_def fresh_def Let_def s n)
  have w: "list_all is_word ''tax_2024''"
    by (simp add: is_word_def is_alnum_def)
  have a: "list_all (\<lambda>c. is_alnum c \<or> c = CHR '' '') ''form''"
    by (simp add: is_alnum_def)
  show ?thesis
    using w a u p by simp
qed

text \<open>
  Claim C2, amended. For every timestamp, every category without an underscore (every
  category matching \<^verbatim>\<open>[A-Za-z0-9]+\<close> is one) and every name of alphanumerics and
  spaces, \<open>uploadDocument\<close> of a file whose extension is \<^verbatim>\<open>pdf\<close> requests the
  upload of \<^verbatim>\<open><prefix>/<t>_<c>_<sanitized name>.pdf\<close>, returns that path when the
  upload succeeds, and \<open>parseFilename\<close> of the key gives back the category and the
  name.
\<close>

theorem upload_then_parse_roundtrip:
  assumes "CHR ''_'' \<notin> set category"
    and "list_all (\<lambda>c. is_alnum c \<or> c = CHR '' '') name"
    and "last (split_on CHR ''.'' (file_name file)) = ''pdf''"
  shows "let key = show_nat now @ ''_'' @ category @ ''_'' @ sanitize name @ ''.pdf'';
             prefix = (if isPrivate then userId @ ''/private'' else userId)
         in trace (snd (uploadDocument srv getPublicUrl now userId file name category isPrivate st))
              = trace st @ [StorageUpload (prefix @ ''/'' @ key) file]
          \<and> (\<forall>r. fst (uploadDocument srv getPublicUrl now userId file name category isPrivate st)
                    = Inr r \<longrightarrow> res_path r = prefix @ ''/'' @ key)
          \<and> parseFilename key = \<lparr> pf_category = category, pf_displayName = name \<rparr>"
proof -
  have "strip_ext (sanitize name @ CHR ''.'' # ''pdf'') = sanitize name"
    by (rule strip_ext_append) (simp_all add: is_word_def is_alnum_def)
  then have "parseFilename (show_nat now @ ''_'' @ category @ ''_'' @ sanitize name @ ''.pdf'')
      = \<lparr> pf_category = category, pf_displayName = name \<rparr>"
    using parseFilename_encoded [OF show_nat_no_underscore assms(1),
        of now "sanitize name @ ''.pdf''"]
      underscores_to_spaces_sanitize [OF assms(2)]
    by simp
  moreover have "trace (snd (uploadDocument srv getPublicUrl now userId file name category isPrivate st))
      = trace st @ [StorageUpload ((if isPrivate then userId @ ''/private'' else userId) @ ''/''
          @ show_nat now @ ''_'' @ category @ ''_'' @ sanitize name @ ''.pdf'') file]"
    using assms(3)
    by (simp add: uploadDocument_def Let_def case_prod_beta invoke_trace split: option.splits)
  moreover have "\<forall>r. fst (uploadDocument srv getPublicUrl now userId file name category isPrivate st)
      = Inr r \<longrightarrow> res_path r = (if isPrivate then userId @ ''/private'' else userId) @ ''/''
          @ show_nat now @ ''_'' @ category @ ''_'' @ sanitize name @ ''.pdf''"
    using assms(3)
    by (auto simp: uploadDocument_def Let_def case_prod_beta split: option.splits)
  ultimately show ?thesis
    by (simp add: Let_def)
qed

theorem upload_then_parse_roundtrip_witness:
  "CHR ''_'' \<notin> set ''tax'' \<and> list_all (\<lambda>c. is_alnum c \<or> c = CHR '' '') ''my form 2024''
   \<and> uploadDocument scripted (\<lambda>p. p) 7 ''u1'' \<lparr> file_name = ''scan.pdf'', file_type = ''application/pdf'' \<rparr>
        ''my form 2024'' ''tax'' False (fresh [])
      = (Inr \<lparr> res_publicUrl = ''u1/7_tax_my_form_2024.pdf'', res_path = ''u1/7_tax_my_form_2024.pdf'' \<rparr>,
         \<lparr> remote = [],
           trace = [StorageUpload ''u1/7_tax_my_form_2024.pdf''
                      \<lparr> file_name = ''scan.pdf'', file_type = ''application/pdf'' \<rparr>],
           console = [] \<rparr>)
   \<and> parseFilename ''7_tax_my_form_2024.pdf''
      = \<lparr> pf_category = ''tax'', pf_displayName = ''my form 2024'' \<rparr>"
proof -
  have h1: "CHR ''_'' \<notin> set ''tax''"
    by simp
  have h2: "list_all (\<lambda>c. is_alnum c \<or> c = CHR '' '') ''my form 2024''"
    by (simp add: is_alnum_def)
  have h3: "last (split_on CHR ''.''
              (file_name \<lparr> file_name = ''scan.pdf'', file_type = ''application/pdf'' \<rparr>)) = ''pdf''"
    by simp
  have s: "sanitize ''my form 2024'' = ''my_form_2024''"
    by (simp add: sanitize_def is_alnum_def)
  have n: "show_nat 7 = ''7''"
    by (simp add: show_nat.simps digit_char_def)
  have u: "uploadDocument scripted (\<lambda>p. p) 7 ''u1'' \<lparr> file_name = ''scan.pdf'', file_type = ''application/pdf'' \<rparr>
        ''my form 2024'' ''tax'' False (fresh [])
      = (Inr \<lparr> res_publicUrl = ''u1/7_tax_my_form_2024.pdf'', res_path = ''u1/7_tax_my_form_2024.pdf'' \<rparr>,
         \<lparr> remote = [],
           trace = [StorageUpload ''u1/7_tax_my_form_2024.pdf''
                      \<lparr> file_name = ''scan.pdf'', file_type = ''application/pdf'' \<rparr>],
           console = [] \<rparr>)"
    by (simp add: uploadDocument_def invoke_def scripted_def fresh_def Let_def s n)
  show ?thesis
    using h1 h2 u
      upload_then_parse_roundtrip [OF h1 h2 h3, of 7 False "''u1''" scripted "\<lambda>p. p" "fresh []"]
    by (simp add: Let_def s n)
qed

section \<open>Permanent delete\<close>

text \<open>
  Claim C7. \<open>deletePermanent\<close> returns normally whatever the service answers. It
  issues the remove of the path first, with no request before it that would look the object
  up, and then the three cleanup deletions, all keyed on the first slash-segment of the
  path as user id and on the path; the answer to the remove is dropped, and everything the
  operation prints is a warning.
\<close>

theorem deletePermanent_never_raises:
  "fst (deletePermanent srv path st) = Inr ()
   \<and> trace (snd (deletePermanent srv path st)) =
       trace st @
         [StorageRemove [path],
          TableDelete ''smart_folder_assignments''
            [(''user_id'', hd (split_on CHR ''/'' path)), (''document_path'', path)],
          TableDelete ''document_shares''
            [(''user_id'', hd (split_on CHR ''/'' path)), (''document_path'', path)],
          TableDelete ''deleted_documents''
            [(''user_id'', hd (split_on CHR ''/'' path)), (''document_path'', path)]]
   \<and> (\<exists>ws. console (snd (deletePermanent srv path st)) = console st @ ws
          \<and> list_all is_warning ws)"
proof -
  have res: "deletePermanent srv path st =
      (Inr (), cleanupDocumentReferences srv (hd (split_on CHR ''/'' path)) path
                 (snd (invoke srv (StorageRemove [path]) st)))"
    by (simp add: deletePermanent_def Let_def case_prod_beta)
  obtain ws where ws:
    "console (cleanupDocumentReferences srv (hd (split_on CHR ''/'' path)) path
                (snd (invoke srv (StorageRemove [path]) st)))
       = console (snd (invoke srv (StorageRemove [path]) st)) @ ws" "list_all is_warning ws"
    using cleanup_console [of srv "hd (split_on CHR ''/'' path)" path
        "snd (invoke srv (StorageRemove [path]) st)"] by blast
  show ?thesis
    using ws by (simp add: res cleanup_trace invoke_trace invoke_console)
qed

theorem deletePermanent_never_raises_witness:
  "deletePermanent scripted ''u1/missing.pdf''
     (fresh [Failed (RemoteError ''not found''), Failed (RemoteError ''e1''),
             Failed (RemoteError ''e2''), Failed (RemoteError ''e3'')])
   = (Inr (),
      \<lparr> remote = [],
        trace = [StorageRemove [''u1/missing.pdf''],
                 TableDelete ''smart_folder_assignments''
                   [(''user_id'', ''u1''), (''document_path'', ''u1/missing.pdf'')],
                 TableDelete ''document_shares''
                   [(''user_id'', ''u1''), (''document_path'', ''u1/missing.pdf'')],
                 TableDelete ''deleted_documents''
                   [(''user_id'', ''u1''), (''document_path'', ''u1/missing.pdf'')]],
        console = [ConsoleWarn ''Failed to clean up folder assignments:'' (RemoteError ''e1''),
                   ConsoleWarn ''Failed to clean up document shares:'' (RemoteError ''e2''),
                   ConsoleWarn ''Failed to clean up deleted documents tracking:''
                     (RemoteError ''e3'')] \<rparr>)"
  using deletePermanent_never_raises [of scripted "''u1/missing.pdf''"
      "fresh [Failed (RemoteError ''not found''), Failed (RemoteError ''e1''),
              Failed (RemoteError ''e2''), Failed (RemoteError ''e3'')]"]
  by (simp add: deletePermanent_def cleanupDocumentReferences_def invoke_def scripted_def
      fresh_def console_warn_def Let_def)

section \<open>The tracking row of a trashed document\<close>

text \<open>
  Claim C1 asks for a tracking row whose \<^verbatim>\<open>document_path\<close> is the new trash path.
  Run on the document \<^verbatim>\<open>u1/5_id_card.pdf\<close> with every request succeeding,
  \<open>moveToTrash\<close> copies it to \<^verbatim>\<open>u1/trash/5_id_card.pdf\<close> and then upserts a row
  whose \<^verbatim>\<open>document_path\<close> is the original path \<^verbatim>\<open>u1/5_id_card.pdf\<close>.
  \<open>restoreFromTrash\<close> of that file deletes the rows whose \<^verbatim>\<open>document_path\<close> is
  the trash path, which the row written by \<open>moveToTrash\<close> does not have.
\<close>

theorem moveToTrash_tracks_original_path:
  "trace (snd (moveToTrash scripted ''u1'' ''u1/5_id_card.pdf'' (fresh []))) =
     [StorageCopy ''u1/5_id_card.pdf'' ''u1/trash/5_id_card.pdf'',
      StorageRemove [''u1/5_id_card.pdf''],
      TableDelete ''smart_folder_assignments''
        [(''user_id'', ''u1''), (''document_path'', ''u1/5_id_card.pdf'')],
      TableDelete ''document_shares''
        [(''user_id'', ''u1''), (''document_path'', ''u1/5_id_card.pdf'')],
      TableDelete ''deleted_documents''
        [(''user_id'', ''u1''), (''document_path'', ''u1/5_id_card.pdf'')],
      TableUpsert ''deleted_documents''
        \<lparr> user_id = ''u1'', document_path = ''u1/5_id_card.pdf'',
          document_name = ''5_id_card.pdf'' \<rparr>]
   \<and> ''u1/5_id_card.pdf'' \<noteq> ''u1/trash/5_id_card.pdf''
   \<and> trace (snd (restoreFromTrash scripted (\<lambda>p. p) 9 ''u1'' ''5_id_card.pdf'' (fresh []))) =
     [StorageCopy ''u1/trash/5_id_card.pdf'' ''u1/9_5_id_card.pdf'',
      StorageRemove [''u1/trash/5_id_card.pdf''],
      TableDelete ''deleted_documents''
        [(''user_id'', ''u1''), (''document_path'', ''u1/trash/5_id_card.pdf'')]]"
  by (simp add: moveToTrash_def restoreFromTrash_def cleanupDocumentReferences_def invoke_def
      scripted_def fresh_def show_nat.simps digit_char_def Let_def)

section \<open>Where a trashed document comes back\<close>



section \<open>Decoding a restored key\<close>




section \<open>Purging old trash\<close>

text \<open>
  Claim C3. When the trash listing succeeds, \<open>purgeOldTrash\<close> returns normally and
  sends to the service, after the listing, at most one remove request; its argument is the
  list of the trash paths of exactly those listed entries whose size is not zero and whose
  recorded deletion time is strictly before the cutoff \<^verbatim>\<open>now - days * 86400000\<close> (30
  days when the caller gives none), and no remove is sent when there is no such entry. The
  whole result is fixed: the service is left in the state in which it answered that one
  remove (or the listing, when nothing is removed), the list of requests grows by the
  listing and the remove, and nothing is printed. In particular an entry of size zero is
  not among the removed ones whatever its age, and neither is an entry whose deletion time
  is at or after the cutoff.
\<close>

theorem purgeOldTrash_removes_old_nonempty:
  assumes "srv (StorageList (userId @ ''/trash'')) (remote st) = (Done data, s')"
  shows "let cutoff = int now - (case days of None \<Rightarrow> 30 | Some d \<Rightarrow> d) * 86400000;
             old = filter (\<lambda>obj. size_or_zero obj \<noteq> 0 \<and>
                       (\<exists>ms. getTime (obj_created_at obj) = Some ms \<and> ms < cutoff)) (or_empty data);
             paths = map (\<lambda>obj. userId @ ''/trash/'' @ obj_name obj) old
         in purgeOldTrash srv getPublicUrl getTime now userId days st =
              (Inr (),
               st\<lparr> remote := (if paths = [] then s' else snd (srv (StorageRemove paths) s')),
                   trace := trace st @ StorageList (userId @ ''/trash'')
                              # (if paths = [] then [] else [StorageRemove paths]) \<rparr>)
          \<and> fst (purgeOldTrash srv getPublicUrl getTime now userId days st) = Inr ()
          \<and> trace (snd (purgeOldTrash srv getPublicUrl getTime now userId days st)) =
              trace st @ StorageList (userId @ ''/trash'')
                # (if paths = [] then [] else [StorageRemove paths])
          \<and> remote (snd (purgeOldTrash srv getPublicUrl getTime now userId days st)) =
              (if paths = [] then s' else snd (srv (StorageRemove paths) s'))
          \<and> (\<forall>obj \<in> set (or_empty data). size_or_zero obj = 0 \<longrightarrow> obj \<notin> set old)
          \<and> (\<forall>obj \<in> set (or_empty data). \<forall>ms.
                getTime (obj_created_at obj) = Some ms \<and> cutoff \<le> ms \<longrightarrow> obj \<notin> set old)"
proof -
  define cutoff where "cutoff = int now - (case days of None \<Rightarrow> 30 | Some d \<Rightarrow> d) * 86400000"
  define old where "old = filter (\<lambda>obj. size_or_zero obj \<noteq> 0 \<and>
      (\<exists>ms. getTime (obj_created_at obj) = Some ms \<and> ms < cutoff)) (or_empty data)"
  define paths where "paths = map (\<lambda>obj. userId @ ''/trash/'' @ obj_name obj) old"
  define listed where
    "listed = st\<lparr> remote := s', trace := trace st @ [StorageList (userId @ ''/trash'')] \<rparr>"
  have thr: "int now - (case days of None \<Rightarrow> 30 | Some d \<Rightarrow> d) * 24 * 60 * 60 * 1000 = cutoff"
    by (simp add: cutoff_def)
  have lt: "listUserTrash srv getPublicUrl userId st =
     (Inr (map (\<lambda>obj. \<lparr> trash_name = obj_name obj,
                          trash_path = userId @ ''/trash/'' @ obj_name obj,
                          trash_publicUrl = getPublicUrl (userId @ ''/trash/'' @ obj_name obj),
                          trash_size = size_or_zero obj,
                          trash_deletedAt = obj_created_at obj \<rparr>) (or_empty data)),
      listed)"
    unfolding listed_def using assms by (rule listUserTrash_done)
  have p: "purgeOldTrash srv getPublicUrl getTime now userId days st =
      (if paths \<noteq> [] then (Inr (), snd (invoke srv (StorageRemove paths) listed))
       else (Inr (), listed))"
    unfolding purgeOldTrash_def thr lt Let_def
    by (simp only: prod.case sum.case purge_selection paths_def old_def)
  have i: "snd (invoke srv (StorageRemove paths) listed) =
      st\<lparr> remote := snd (srv (StorageRemove paths) s'),
          trace := trace st @ [StorageList (userId @ ''/trash''), StorageRemove paths] \<rparr>"
    by (simp add: invoke_def listed_def case_prod_beta)
  have whole: "purgeOldTrash srv getPublicUrl getTime now userId days st =
      (Inr (),
       st\<lparr> remote := (if paths = [] then s' else snd (srv (StorageRemove paths) s')),
           trace := trace st @ StorageList (userId @ ''/trash'')
                      # (if paths = [] then [] else [StorageRemove paths]) \<rparr>)"
    unfolding p i by (simp add: listed_def)
  have a: "fst (purgeOldTrash srv getPublicUrl getTime now userId days st) = Inr ()"
    unfolding whole by simp
  have b: "trace (snd (purgeOldTrash srv getPublicUrl getTime now userId days st)) =
      trace st @ StorageList (userId @ ''/trash'')
        # (if paths = [] then [] else [StorageRemove paths])"
    unfolding whole by simp
  have r: "remote (snd (purgeOldTrash srv getPublicUrl getTime now userId days st)) =
      (if paths = [] then s' else snd (srv (StorageRemove paths) s'))"
    unfolding whole by simp
  have c: "\<forall>obj \<in> set (or_empty data). size_or_zero obj = 0 \<longrightarrow> obj \<notin> set old"
    by (simp add: old_def)
  have d: "\<forall>obj \<in> set (or_empty data). \<forall>ms.
      getTime (obj_created_at obj) = Some ms \<and> cutoff \<le> ms \<longrightarrow> obj \<notin> set old"
    by (auto simp: old_def)
  from whole a b r c d show ?thesis
    unfolding Let_def cutoff_def [symmetric] old_def [symmetric] paths_def [symmetric]
    by (intro conjI)
qed

text \<open>
  The example of the specification, with the clock at 1970-02-10T00:00:00.000Z
  (3456000000 ms): entries deleted 31 days, 1 day and 40 days before, the last of size
  zero. \<open>getTime\<close> maps each timestamp to the milliseconds it denotes. The service
  answers the remove with an error, which the code does not look at.
\<close>

theorem purgeOldTrash_removes_old_nonempty_witness:
  "scripted (StorageList ''u1/trash'')
     (remote (fresh [Done (Some
        [\<lparr> obj_name = ''old.pdf'', obj_created_at = ''1970-01-10T00:00:00.000Z'',
           obj_metadata_size = Some 5 \<rparr>,
         \<lparr> obj_name = ''new.pdf'', obj_created_at = ''1970-02-09T00:00:00.000Z'',
           obj_metadata_size = Some 5 \<rparr>,
         \<lparr> obj_name = ''marker'', obj_created_at = ''1970-01-01T00:00:00.000Z'',
           obj_metadata_size = Some 0 \<rparr>]),
        Failed (RemoteError ''busy'')]))
     = (Done (Some
        [\<lparr> obj_name = ''old.pdf'', obj_created_at = ''1970-01-10T00:00:00.000Z'',
           obj_metadata_size = Some 5 \<rparr>,
         \<lparr> obj_name = ''new.pdf'', obj_created_at = ''1970-02-09T00:00:00.000Z'',
           obj_metadata_size = Some 5 \<rparr>,
         \<lparr> obj_name = ''marker'', obj_created_at = ''1970-01-01T00:00:00.000Z'',
           obj_metadata_size = Some 0 \<rparr>]),
        [Failed (RemoteError ''busy'')])
   \<and> purgeOldTrash scripted (\<lambda>p. p)
        (map_of [(''1970-01-01T00:00:00.000Z'', 0), (''1970-01-10T00:00:00.000Z'', 777600000),
                 (''1970-02-09T00:00:00.000Z'', 3369600000)])
        3456000000 ''u1'' (Some 30)
        (fresh [Done (Some
        [\<lparr> obj_name = ''old.pdf'', obj_created_at = ''1970-01-10T00:00:00.000Z'',
           obj_metadata_size = Some 5 \<rparr>,
         \<lparr> obj_name = ''new.pdf'', obj_created_at = ''1970-02-09T00:00:00.000Z'',
           obj_metadata_size = Some 5 \<rparr>,
         \<lparr> obj_name = ''marker'', obj_created_at = ''1970-01-01T00:00:00.000Z'',
           obj_metadata_size = Some 0 \<rparr>]),
        Failed (RemoteError ''busy'')])
     = (Inr (),
        \<lparr> remote = [],
          trace = [StorageList ''u1/trash'', StorageRemove [''u1/trash/old.pdf'']],
          console = [] \<rparr>)"
proof -
  let ?objs = "[\<lparr> obj_name = ''old.pdf'', obj_created_at = ''1970-01-10T00:00:00.000Z'',
           obj_metadata_size = Some 5 \<rparr>,
         \<lparr> obj_name = ''new.pdf'', obj_created_at = ''1970-02-09T00:00:00.000Z'',
           obj_metadata_size = Some 5 \<rparr>,
         \<lparr> obj_name = ''marker'', obj_created_at = ''1970-01-01T00:00:00.000Z'',
           obj_metadata_size = Some (0::nat) \<rparr>]"
  have h: "scripted (StorageList (''u1'' @ ''/trash''))
        (remote (fresh [Done (Some ?objs), Failed (RemoteError ''busy'')]))
      = (Done (Some ?objs), [Failed (RemoteError ''busy'')])"
    by (simp add: scripted_def fresh_def)
  show ?thesis
    using h purgeOldTrash_removes_old_nonempty [where srv = scripted and userId = "''u1''"
        and st = "fresh [Done (Some ?objs), Failed (RemoteError ''busy'')]"
        and data = "Some ?objs" and s' = "[Failed (RemoteError ''busy'')]"
        and now = 3456000000 and days = "Some 30"
        and getTime = "map_of [(''1970-01-01T00:00:00.000Z'', 0),
                 (''1970-01-10T00:00:00.000Z'', 777600000),
                 (''1970-02-09T00:00:00.000Z'', 3369600000)]"
        and getPublicUrl = "\<lambda>p. p"]
    by (simp add: Let_def or_empty_def size_or_zero_def fresh_def scripted_def)
qed

section \<open>Listing the documents of a user\<close>

text \<open>
  Claim C4. When the regular listing succeeds, \<open>listUserDocuments\<close> returns the
  documents built from the regular entries followed by those built from the private
  entries, in both cases only from entries that pass the filter. Every entry a document is
  built from has a dot in its (object) name and a size above zero, every entry of size
  zero or without a dot is left out, and every returned document has a size above zero and
  a dot in its path. The \<open>doc_name\<close> of a document is the decoded display name, which
  has lost the extension. A private document differs from what the regular listing would
  make of the same entry in its path, its URL and its category, which is \<^verbatim>\<open>private\<close>
  whatever \<open>parseFilename\<close> decodes.
\<close>

theorem listUserDocuments_filter_and_private:
  assumes "srv (StorageList userId) (remote st) = (Done regularData, s')"
    and "srv (StorageList (userId @ ''/private'')) s' = (r', s'')"
  shows "let regularObjs = filter is_listed_file (or_empty regularData);
             privateObjs = filter is_listed_file (or_empty (data_of r'));
             regularDocs = map (regular_doc getPublicUrl userId) regularObjs;
             privateDocs = map (private_doc getPublicUrl userId) privateObjs
         in fst (listUserDocuments srv getPublicUrl userId st) = Inr (regularDocs @ privateDocs)
          \<and> (\<forall>obj \<in> set (regularObjs @ privateObjs).
                CHR ''.'' \<in> set (obj_name obj) \<and> size_or_zero obj > 0)
          \<and> (\<forall>obj \<in> set (or_empty regularData @ or_empty (data_of r')).
                size_or_zero obj = 0 \<or> CHR ''.'' \<notin> set (obj_name obj)
                  \<longrightarrow> obj \<notin> set (regularObjs @ privateObjs))
          \<and> (\<forall>d \<in> set (regularDocs @ privateDocs). doc_size d > 0 \<and> CHR ''.'' \<in> set (doc_path d))
          \<and> (\<forall>obj \<in> set privateObjs.
                private_doc getPublicUrl userId obj =
                  (regular_doc getPublicUrl userId obj)
                    \<lparr> doc_path := userId @ ''/private/'' @ obj_name obj,
                      doc_publicUrl := getPublicUrl (userId @ ''/private/'' @ obj_name obj),
                      doc_category := ''private'' \<rparr>)
          \<and> (\<forall>d \<in> set privateDocs. doc_category d = ''private'')"
proof -
  define regularObjs where "regularObjs = filter is_listed_file (or_empty regularData)"
  define privateObjs where "privateObjs = filter is_listed_file (or_empty (data_of r'))"
  have a: "fst (listUserDocuments srv getPublicUrl userId st) =
      Inr (map (regular_doc getPublicUrl userId) regularObjs
           @ map (private_doc getPublicUrl userId) privateObjs)"
    unfolding regularObjs_def privateObjs_def
    using assms by (rule listUserDocuments_regular_done)
  have b: "\<forall>obj \<in> set (regularObjs @ privateObjs).
      CHR ''.'' \<in> set (obj_name obj) \<and> size_or_zero obj > 0"
    by (auto simp: regularObjs_def privateObjs_def dest: is_listed_fileD)
  have c: "\<forall>obj \<in> set (or_empty regularData @ or_empty (data_of r')).
      size_or_zero obj = 0 \<or> CHR ''.'' \<notin> set (obj_name obj)
        \<longrightarrow> obj \<notin> set (regularObjs @ privateObjs)"
    by (auto simp: regularObjs_def privateObjs_def dest: is_listed_fileD)
  have d: "\<forall>d \<in> set (map (regular_doc getPublicUrl userId) regularObjs
                      @ map (private_doc getPublicUrl userId) privateObjs).
      doc_size d > 0 \<and> CHR ''.'' \<in> set (doc_path d)"
    using b by (auto simp: regular_doc_fields private_doc_fields)
  have e: "\<forall>obj \<in> set privateObjs.
      private_doc getPublicUrl userId obj =
        (regular_doc getPublicUrl userId obj)
          \<lparr> doc_path := userId @ ''/private/'' @ obj_name obj,
            doc_publicUrl := getPublicUrl (userId @ ''/private/'' @ obj_name obj),
            doc_category := ''private'' \<rparr>"
    by (simp add: private_doc_def regular_doc_def Let_def)
  have f: "\<forall>d \<in> set (map (private_doc getPublicUrl userId) privateObjs).
      doc_category d = ''private''"
    by (simp add: private_doc_fields)
  from a b c d e f show ?thesis
    unfolding Let_def regularObjs_def [symmetric] privateObjs_def [symmetric]
    by (intro conjI)
qed

theorem listUserDocuments_filter_and_private_witness:
  "scripted (StorageList ''u1'')
     (remote (fresh
       [Done (Some
          [\<lparr> obj_name = ''1_tax_a.pdf'', obj_created_at = ''t1'', obj_metadata_size = Some 5 \<rparr>,
           \<lparr> obj_name = ''private'', obj_created_at = ''t2'', obj_metadata_size = Some 3 \<rparr>,
           \<lparr> obj_name = ''2_tax_b.pdf'', obj_created_at = ''t3'', obj_metadata_size = None \<rparr>]),
        Done (Some
          [\<lparr> obj_name = ''3_id_c.pdf'', obj_created_at = ''t4'', obj_metadata_size = Some 7 \<rparr>])]))
     = (Done (Some
          [\<lparr> obj_name = ''1_tax_a.pdf'', obj_created_at = ''t1'', obj_metadata_size = Some 5 \<rparr>,
           \<lparr> obj_name = ''private'', obj_created_at = ''t2'', obj_metadata_size = Some 3 \<rparr>,
           \<lparr> obj_name = ''2_tax_b.pdf'', obj_created_at = ''t3'', obj_metadata_size = None \<rparr>]),
        [Done (Some
          [\<lparr> obj_name = ''3_id_c.pdf'', obj_created_at = ''t4'', obj_metadata_size = Some 7 \<rparr>])])
   \<and> fst (listUserDocuments scripted (\<lambda>p. p) ''u1''
       (fresh
       [Done (Some
          [\<lparr> obj_name = ''1_tax_a.pdf'', obj_created_at = ''t1'', obj_metadata_size = Some 5 \<rparr>,
           \<lparr> obj_name = ''private'', obj_created_at = ''t2'', obj_metadata_size = Some 3 \<rparr>,
           \<lparr> obj_name = ''2_tax_b.pdf'', obj_created_at = ''t3'', obj_metadata_size = None \<rparr>]),
        Done (Some
          [\<lparr> obj_name = ''3_id_c.pdf'', obj_created_at = ''t4'', obj_metadata_size = Some 7 \<rparr>])]))
     = Inr [\<lparr> doc_name = ''a'', doc_path = ''u1/1_tax_a.pdf'', doc_publicUrl = ''u1/1_tax_a.pdf'',
              doc_size = 5, doc_category = ''tax'', doc_created_at = ''t1'' \<rparr>,
            \<lparr> doc_name = ''c'', doc_path = ''u1/private/3_id_c.pdf'',
              doc_publicUrl = ''u1/private/3_id_c.pdf'',
              doc_size = 7, doc_category = ''private'', doc_created_at = ''t4'' \<rparr>]"
proof -
  let ?reg = "[\<lparr> obj_name = ''1_tax_a.pdf'', obj_created_at = ''t1'', obj_metadata_size = Some (5::nat) \<rparr>,
           \<lparr> obj_name = ''private'', obj_created_at = ''t2'', obj_metadata_size = Some 3 \<rparr>,
           \<lparr> obj_name = ''2_tax_b.pdf'', obj_created_at = ''t3'', obj_metadata_size = None \<rparr>]"
  let ?priv = "[\<lparr> obj_name = ''3_id_c.pdf'', obj_created_at = ''t4'', obj_metadata_size = Some (7::nat) \<rparr>]"
  have h1: "scripted (StorageList ''u1'') (remote (fresh [Done (Some ?reg), Done (Some ?priv)]))
      = (Done (Some ?reg), [Done (Some ?priv)])"
    by (simp add: scripted_def fresh_def)
  have h2: "scripted (StorageList (''u1'' @ ''/private'')) [Done (Some ?priv)]
      = (Done (Some ?priv), [])"
    by (simp add: scripted_def)
  have p1: "parseFilename ''1_tax_a.pdf'' = \<lparr> pf_category = ''tax'', pf_displayName = ''a'' \<rparr>"
    by (simp add: parseFilename_def underscores_to_spaces_def is_word_def is_alnum_def)
  have p2: "parseFilename ''3_id_c.pdf'' = \<lparr> pf_category = ''id'', pf_displayName = ''c'' \<rparr>"
    by (simp add: parseFilename_def underscores_to_spaces_def is_word_def is_alnum_def)
  show ?thesis
    using h1 h2 listUserDocuments_filter_and_private [where srv = scripted and userId = "''u1''"
        and st = "fresh [Done (Some ?reg), Done (Some ?priv)]" and regularData = "Some ?reg"
        and s' = "[Done (Some ?priv)]" and r' = "Done (Some ?priv)" and s'' = "[]"
        and getPublicUrl = "\<lambda>p. p"]
    by (simp add: Let_def or_empty_def size_or_zero_def is_listed_file_def regular_doc_def
        private_doc_def p1 p2)
qed

text \<open>
  Claim C8. A regular listing answered with an error makes \<open>listUserDocuments\<close> raise
  that error. When the regular listing succeeds and the private listing is answered with
  an error, the operation returns, and what it returns is exactly the documents built from
  the regular listing.
\<close>

theorem listUserDocuments_listing_failures:
  "(srv (StorageList userId) (remote st) = (Failed e, s') \<longrightarrow>
      fst (listUserDocuments srv getPublicUrl userId st) = Inl e)
   \<and> (srv (StorageList userId) (remote st) = (Done regularData, s')
        \<and> srv (StorageList (userId @ ''/private'')) s' = (Failed e, s'') \<longrightarrow>
      fst (listUserDocuments srv getPublicUrl userId st) =
        Inr (map (regular_doc getPublicUrl userId)
               (filter is_listed_file (or_empty regularData))))"
proof (intro conjI impI)
  assume "srv (StorageList userId) (remote st) = (Failed e, s')"
  then have "listUserDocuments srv getPublicUrl userId st =
     (Inl e, console_error ''Error in listUserDocuments:'' e
               (console_error ''Error listing regular documents:'' e
                  (st\<lparr> remote := s', trace := trace st @ [StorageList userId] \<rparr>)))"
    by (rule listUserDocuments_regular_failed)
  then show "fst (listUserDocuments srv getPublicUrl userId st) = Inl e"
    by simp
next
  assume "srv (StorageList userId) (remote st) = (Done regularData, s')
        \<and> srv (StorageList (userId @ ''/private'')) s' = (Failed e, s'')"
  then have r: "srv (StorageList userId) (remote st) = (Done regularData, s')"
    and p: "srv (StorageList (userId @ ''/private'')) s' = (Failed e, s'')"
    by simp_all
  have "fst (listUserDocuments srv getPublicUrl userId st) =
     Inr (map (regular_doc getPublicUrl userId) (filter is_listed_file (or_empty regularData))
          @ map (private_doc getPublicUrl userId)
              (filter is_listed_file (or_empty (data_of (Failed e)))))"
    using r p by (rule listUserDocuments_regular_done)
  then show "fst (listUserDocuments srv getPublicUrl userId st) =
        Inr (map (regular_doc getPublicUrl userId)
               (filter is_listed_file (or_empty regularData)))"
    by (simp add: or_empty_def)
qed

theorem listUserDocuments_listing_failures_witness:
  "fst (listUserDocuments scripted (\<lambda>p. p) ''u1'' (fresh [Failed (RemoteError ''offline'')]))
     = Inl (RemoteError ''offline'')
   \<and> fst (listUserDocuments scripted (\<lambda>p. p) ''u1''
       (fresh
       [Done (Some
          [\<lparr> obj_name = ''1_tax_a.pdf'', obj_created_at = ''t1'', obj_metadata_size = Some 5 \<rparr>]),
        Failed (RemoteError ''denied'')]))
     = Inr [\<lparr> doc_name = ''a'', doc_path = ''u1/1_tax_a.pdf'', doc_publicUrl = ''u1/1_tax_a.pdf'',
              doc_size = 5, doc_category = ''tax'', doc_created_at = ''t1'' \<rparr>]"
proof -
  let ?reg = "[\<lparr> obj_name = ''1_tax_a.pdf'', obj_created_at = ''t1'', obj_metadata_size = Some (5::nat) \<rparr>]"
  have p1: "parseFilename ''1_tax_a.pdf'' = \<lparr> pf_category = ''tax'', pf_displayName = ''a'' \<rparr>"
    by (simp add: parseFilename_def underscores_to_spaces_def is_word_def is_alnum_def)
  have a: "fst (listUserDocuments scripted (\<lambda>p. p) ''u1'' (fresh [Failed (RemoteError ''offline'')]))
     = Inl (RemoteError ''offline'')"
    using listUserDocuments_listing_failures [where srv = scripted and userId = "''u1''"
        and st = "fresh [Failed (RemoteError ''offline'')]" and e = "RemoteError ''offline''"
        and s' = "[]" and getPublicUrl = "\<lambda>p. p"]
    by (simp add: scripted_def fresh_def)
  have b: "fst (listUserDocuments scripted (\<lambda>p. p) ''u1''
       (fresh [Done (Some ?reg), Failed (RemoteError ''denied'')]))
     = Inr [\<lparr> doc_name = ''a'', doc_path = ''u1/1_tax_a.pdf'', doc_publicUrl = ''u1/1_tax_a.pdf'',
              doc_size = 5, doc_category = ''tax'', doc_created_at = ''t1'' \<rparr>]"
    using listUserDocuments_listing_failures [where srv = scripted and userId = "''u1''"
        and st = "fresh [Done (Some ?reg), Failed (RemoteError ''denied'')]"
        and e = "RemoteError ''denied''" and regularData = "Some ?reg"
        and s' = "[Failed (RemoteError ''denied'')]" and s'' = "[]"
        and getPublicUrl = "\<lambda>p. p"]
    by (simp add: scripted_def fresh_def or_empty_def size_or_zero_def is_listed_file_def
        regular_doc_def Let_def p1)
  from a b show ?thesis
    by (intro conjI)
qed

end
